theory Spec2Isabelle
  imports Complex_Main
begin

section \<open>The editor / language-server bridge of \<open>src/components/code-editor.tsx\<close>\<close>

text \<open>
  The component \<open>CodeEditor\<close> wires a CodeMirror editing surface to the language-server
  store (\<open>useLspStore\<close>). This theory embeds the functions of that file which carry the
  bridge logic: \<open>mapLspDiagnosticsToCM\<close>, \<open>lspCompletion\<close>, \<open>lspLinter\<close>,
  \<open>getProjectRoot\<close>, \<open>handleNavigation\<close>, \<open>handleChange\<close>, \<open>createLspHover\<close> and
  \<open>getLanguageExtension\<close>.

  JavaScript numbers are modelled as \<open>int\<close> (the values that occur are line numbers,
  offsets and a version counter, all exact integers far below \<open>2^53\<close>), strings as
  \<open>string\<close>, a value that may be \<open>null\<close> or \<open>undefined\<close> as an \<open>option\<close>, and a
  thrown exception as the left summand of \<open>error + 'a\<close>.
\<close>

subsection \<open>JavaScript values\<close>

datatype error = RangeError | TypeError

text \<open>\<open>!x\<close> for \<open>x : string | null | undefined\<close>: null, undefined and the empty string
  are falsy.\<close>

fun falsy :: "string option \<Rightarrow> bool" where
  "falsy None = True"
| "falsy (Some s) = (s = [])"

text \<open>\<open>String.prototype.substring(a, b)\<close>: both indices are clamped to \<open>[0, length]\<close>
  (a negative index counts as 0) and swapped when \<open>a > b\<close>.\<close>

definition substring :: "string \<Rightarrow> int \<Rightarrow> int \<Rightarrow> string" where
  "substring s a b =
     (let n = int (length s);
          a' = min (max a 0) n;
          b' = min (max b 0) n;
          lo = min a' b';
          hi = max a' b'
      in take (nat (hi - lo)) (drop (nat lo) s))"

text \<open>\<open>String.prototype.slice(a, b)\<close>: a negative index counts from the end; an empty
  result when the start is not before the end.\<close>

definition slice :: "string \<Rightarrow> int \<Rightarrow> int \<Rightarrow> string" where
  "slice s a b =
     (let n = int (length s);
          a' = (if a < 0 then max (n + a) 0 else min a n);
          b' = (if b < 0 then max (n + b) 0 else min b n)
      in take (nat (b' - a')) (drop (nat a') s))"

text \<open>\<open>String.prototype.lastIndexOf(c)\<close>: the index of the last occurrence of \<open>c\<close>,
  \<open>-1\<close> when there is none. The scan keeps the last index seen so far.\<close>

fun lastIndexFrom :: "char \<Rightarrow> string \<Rightarrow> int \<Rightarrow> int \<Rightarrow> int" where
  "lastIndexFrom c [] i found = found"
| "lastIndexFrom c (x # xs) i found = lastIndexFrom c xs (i + 1) (if x = c then i else found)"

definition lastIndexOf :: "string \<Rightarrow> char \<Rightarrow> int" where
  "lastIndexOf s c = lastIndexFrom c s 0 (- 1)"

text \<open>\<open>String.prototype.toLowerCase\<close> on the ASCII letters.\<close>

definition toLowerCase :: "string \<Rightarrow> string" where
  "toLowerCase s =
     map (\<lambda>c. if (65::nat) \<le> of_char c \<and> of_char c \<le> (90::nat)
               then char_of (of_char c + (32::nat)) else c) s"

subsection \<open>CodeMirror documents\<close>

text \<open>
  A CodeMirror \<open>Text\<close> is a non-empty sequence of lines; a line break counts as one
  position. \<open>textLength\<close>, \<open>lineInner\<close>, \<open>line\<close> and \<open>lineAt\<close> follow the library's
  \<open>TextLeaf\<close>: \<open>line(n)\<close> throws a RangeError unless \<open>1 \<le> n \<le> lines\<close>, \<open>lineAt(pos)\<close>
  throws one unless \<open>0 \<le> pos \<le> length\<close>.
\<close>

datatype Text = Text_of string "string list"

fun text_lines :: "Text \<Rightarrow> string list" where
  "text_lines (Text_of l ls) = l # ls"

record Line =
  line_from :: int
  line_to :: int
  line_number :: int
  line_text :: string

definition line_length :: "Line \<Rightarrow> int" where
  "line_length l = line_to l - line_from l"

fun textLength :: "string list \<Rightarrow> int" where
  "textLength [] = - 1"
| "textLength (s # ss) = int (length s) + 1 + textLength ss"

definition doc_length :: "Text \<Rightarrow> int" where
  "doc_length d = textLength (text_lines d)"

definition doc_lines :: "Text \<Rightarrow> int" where
  "doc_lines d = int (length (text_lines d))"

fun lineInner :: "string list \<Rightarrow> int \<Rightarrow> bool \<Rightarrow> int \<Rightarrow> int \<Rightarrow> Line option" where
  "lineInner [] target isLine lineNo offset = None"
| "lineInner (s # ss) target isLine lineNo offset =
     (let end' = offset + int (length s)
      in if (if isLine then lineNo else end') \<ge> target
         then Some \<lparr>line_from = offset, line_to = end', line_number = lineNo, line_text = s\<rparr>
         else lineInner ss target isLine (lineNo + 1) (end' + 1))"

definition doc_line :: "Text \<Rightarrow> int \<Rightarrow> error + Line" where
  "doc_line d n =
     (if n < 1 \<or> n > doc_lines d then Inl RangeError
      else (case lineInner (text_lines d) n True 1 0 of
              Some l \<Rightarrow> Inr l
            | None \<Rightarrow> Inl TypeError))"

definition doc_lineAt :: "Text \<Rightarrow> int \<Rightarrow> error + Line" where
  "doc_lineAt d pos =
     (if pos < 0 \<or> pos > doc_length d then Inl RangeError
      else (case lineInner (text_lines d) pos False 1 0 of
              Some l \<Rightarrow> Inr l
            | None \<Rightarrow> Inl TypeError))"

text \<open>An \<open>EditorView\<close>: the document of its state, the head of its main selection (the
  caret) and the layout's \<open>coordsAtPos\<close>, which is \<open>null\<close> for a position that is not
  rendered.\<close>

record Rect =
  rect_left :: real
  rect_right :: real
  rect_top :: real
  rect_bottom :: real

record EditorView =
  doc :: Text
  selection_head :: int
  coordsAtPos :: "int \<Rightarrow> Rect option"

text \<open>\<open>state.update({selection: {anchor: pos, head: pos}})\<close> followed by \<open>dispatch\<close>:
  the library rejects a selection that reaches beyond the end of the document with a
  RangeError (its \<open>checkSelection\<close>) and otherwise records \<open>pos\<close> as the caret. The
  library makes no such check for a negative \<open>pos\<close>; the statements below use
  \<open>dispatch_selection\<close> at positions that are not negative only.\<close>

definition dispatch_selection :: "EditorView \<Rightarrow> int \<Rightarrow> error + EditorView" where
  "dispatch_selection view pos =
     (if pos > doc_length (doc view) then Inl RangeError
      else Inr (view\<lparr>selection_head := pos\<rparr>))"

text \<open>A position is a valid editor offset when it lies in \<open>[0, length]\<close>.\<close>

definition valid_offset :: "Text \<Rightarrow> int \<Rightarrow> bool" where
  "valid_offset d pos = (0 \<le> pos \<and> pos \<le> doc_length d)"

subsection \<open>The language-server store\<close>

text \<open>The types \<open>DiagnosticItem\<close>, \<open>CompletionItem\<close> and \<open>EnhancedHoverData\<close> are
  imported from \<open>@/lib/lsp-store\<close>; the fields below are the ones this file reads. The
  hover payload is opaque here and is a type parameter.\<close>

record Position =
  line :: int
  character :: int

record Range =
  range_start :: Position
  range_end :: Position

record DiagnosticItem =
  diag_range :: Range
  severity :: string
  message :: string

record LspCompletionItem =
  label :: string
  kind :: string
  detail :: "string option"
  documentation :: "string option"

record 'd HoverInfo =
  enhancedContents :: "'d option"

record LspStore =
  currentFilePath :: "string option"
  diagnostics :: "DiagnosticItem list"

subsection \<open>\<open>mapLspDiagnosticsToCM\<close> (lines 129-137)\<close>

record CMDiagnostic =
  cm_from :: int
  cm_to :: int
  cm_severity :: string
  cm_message :: string

definition mapLspDiagnosticsToCM :: "DiagnosticItem list \<Rightarrow> CMDiagnostic list" where
  "mapLspDiagnosticsToCM ds =
     map (\<lambda>diag.
            \<lparr>cm_from = character (range_start (diag_range diag)),
             cm_to = character (range_end (diag_range diag)),
             cm_severity = (if severity diag = ''error'' then ''error''
                            else if severity diag = ''warning'' then ''warning''
                            else ''info''),
             cm_message = message diag\<rparr>) ds"

subsection \<open>\<open>lspCompletion\<close> (lines 151-193)\<close>

record CompletionContext =
  ctx_doc :: Text
  ctx_pos :: int

text \<open>The character class of the regular expression \<open>/[\w\d_\-\.]*/\<close>: ASCII letters,
  digits, underscore, hyphen and dot.\<close>

definition wordClass :: "char \<Rightarrow> bool" where
  "wordClass c =
     (let n = (of_char c :: nat)
      in (97 \<le> n \<and> n \<le> 122) \<or> (65 \<le> n \<and> n \<le> 90) \<or> (48 \<le> n \<and> n \<le> 57)
         \<or> c = CHR ''_'' \<or> c = CHR ''-'' \<or> c = CHR ''.'')"

text \<open>
  \<open>str.search(/(?:[cls]*)$/)\<close>: the index of the leftmost match. The anchored
  expression matches at index \<open>i\<close> exactly when every character from \<open>i\<close> to the end is in
  the class; it always matches at the end of the string, so the result is never negative.
\<close>

definition search_class_star :: "(char \<Rightarrow> bool) \<Rightarrow> string \<Rightarrow> int" where
  "search_class_star cls str = int (length str) - int (length (takeWhile cls (rev str)))"

text \<open>
  \<open>CompletionContext.matchBefore(expr)\<close> of \<open>@codemirror/autocomplete\<close>, for an expression
  that is a starred character class. The library looks at no more than 250 characters
  of the cursor's line before the cursor, anchors the expression at the cursor
  and returns \<open>{from, to, text}\<close> with \<open>from\<close> and \<open>to\<close> as positions in the document
  (\<open>from = start + found\<close>), or \<open>null\<close> when nothing matches.
\<close>

record Match =
  match_from :: int
  match_to :: int
  match_text :: string

definition matchBefore :: "CompletionContext \<Rightarrow> (char \<Rightarrow> bool) \<Rightarrow> error + Match option" where
  "matchBefore ctx cls =
     (case doc_lineAt (ctx_doc ctx) (ctx_pos ctx) of
        Inl e \<Rightarrow> Inl e
      | Inr l \<Rightarrow>
          (let start = max (line_from l) (ctx_pos ctx - 250);
               str = slice (line_text l) (start - line_from l) (ctx_pos ctx - line_from l);
               found = search_class_star cls str
           in Inr (if found < 0 then None
                   else Some \<lparr>match_from = start + found, match_to = ctx_pos ctx,
                              match_text = slice str found (int (length str))\<rparr>)))"

record CMCompletion =
  cmpl_label :: string
  cmpl_type :: string
  cmpl_detail :: "string option"
  cmpl_info :: "string option"
  cmpl_apply :: string

record CompletionResult =
  result_from :: int
  result_options :: "CMCompletion list"

text \<open>A request handed to \<open>getCompletions\<close>, with what the \<open>then\<close> callback closes over
  (the context and \<open>lineStart\<close>).\<close>

record CompletionRequest =
  req_filePath :: string
  req_position :: Position
  req_context :: CompletionContext
  req_lineStart :: int

text \<open>The synchronous part of \<open>lspCompletion\<close> (lines 152-174): \<open>Inr None\<close> is the
  \<open>return null\<close>, \<open>Inr (Some r)\<close> the call \<open>getCompletions(filePath, lspPosition)\<close>. Both
  \<open>currentFilePath\<close> and \<open>filePath\<close> are read from the same store state.\<close>

definition lspCompletion :: "LspStore \<Rightarrow> CompletionContext \<Rightarrow> error + CompletionRequest option" where
  "lspCompletion st ctx =
     (case doc_lineAt (ctx_doc ctx) (ctx_pos ctx) of
        Inl e \<Rightarrow> Inl e
      | Inr l \<Rightarrow>
          (let lineStart = line_from l;
               cursorPos = ctx_pos ctx - lineStart;
               currentFilePath' = currentFilePath st;
               filePath = currentFilePath st
           in if falsy filePath \<or> filePath \<noteq> currentFilePath' then Inr None
              else (case filePath of
                      None \<Rightarrow> Inr None
                    | Some fp \<Rightarrow>
                        Inr (Some \<lparr>req_filePath = fp,
                                   req_position = \<lparr>line = line_number l - 1, character = cursorPos\<rparr>,
                                   req_context = ctx,
                                   req_lineStart = lineStart\<rparr>))))"

text \<open>The \<open>then\<close> callback (lines 174-192), run when the response arrives.\<close>

definition lspCompletion_then :: "CompletionContext \<Rightarrow> int \<Rightarrow> LspCompletionItem list \<Rightarrow> error + CompletionResult" where
  "lspCompletion_then ctx lineStart completions =
     (let cmCompletions =
            map (\<lambda>item. \<lparr>cmpl_label = label item,
                          cmpl_type = toLowerCase (kind item),
                          cmpl_detail = detail item,
                          cmpl_info = documentation item,
                          cmpl_apply = label item\<rparr>) completions
      in case matchBefore ctx wordClass of
           Inl e \<Rightarrow> Inl e
         | Inr m \<Rightarrow>
             Inr \<lparr>result_from = (case m of Some mt \<Rightarrow> lineStart + match_from mt | None \<Rightarrow> ctx_pos ctx),
                  result_options = cmCompletions\<rparr>)"

text \<open>
  The provider over time. A trigger runs the synchronous part and leaves the request
  pending; the store may change while it is pending; when the response arrives the
  \<open>then\<close> callback runs and its result is what the editing surface receives.
\<close>

datatype event =
    Trigger CompletionContext
  | SetCurrentFilePath "string option"
  | Response "LspCompletionItem list"

record Bridge =
  store :: LspStore
  pending :: "CompletionRequest option"
  delivered :: "CompletionResult option"

fun step :: "Bridge \<Rightarrow> event \<Rightarrow> error + Bridge" where
  "step b (Trigger ctx) =
     (case lspCompletion (store b) ctx of
        Inl e \<Rightarrow> Inl e
      | Inr r \<Rightarrow> Inr (b\<lparr>pending := r, delivered := None\<rparr>))"
| "step b (SetCurrentFilePath p) = Inr (b\<lparr>store := (store b)\<lparr>currentFilePath := p\<rparr>\<rparr>)"
| "step b (Response completions) =
     (case pending b of
        None \<Rightarrow> Inr b
      | Some r \<Rightarrow>
          (case lspCompletion_then (req_context r) (req_lineStart r) completions of
             Inl e \<Rightarrow> Inl e
           | Inr res \<Rightarrow> Inr (b\<lparr>pending := None, delivered := Some res\<rparr>)))"

fun run :: "Bridge \<Rightarrow> event list \<Rightarrow> error + Bridge" where
  "run b [] = Inr b"
| "run b (e # es) = (case step b e of Inl err \<Rightarrow> Inl err | Inr b' \<Rightarrow> run b' es)"

subsection \<open>\<open>lspLinter\<close> (lines 196-205)\<close>

definition lspLinter :: "EditorView \<Rightarrow> LspStore \<Rightarrow> CMDiagnostic list" where
  "lspLinter view st =
     (let diagnostics' = diagnostics st;
          currentFilePath' = currentFilePath st;
          filePath = currentFilePath st
      in if falsy filePath \<or> filePath \<noteq> currentFilePath' then []
         else mapLspDiagnosticsToCM diagnostics')"

subsection \<open>\<open>getProjectRoot\<close> (lines 251-262)\<close>

text \<open>The first argument is the outcome of \<open>invoke('find_project_root', ...)\<close>: a
  rejection or the root path.\<close>

definition getProjectRoot :: "'e + string \<Rightarrow> string \<Rightarrow> string" where
  "getProjectRoot invoked filePath =
     (case invoked of
        Inr rootPath \<Rightarrow> rootPath
      | Inl err \<Rightarrow> substring filePath 0 (lastIndexOf filePath CHR ''/''))"

subsection \<open>\<open>handleNavigation\<close> (lines 298-323)\<close>

text \<open>The first argument is \<open>viewRef.current\<close>; the second is \<open>event.detail\<close>;
  \<open>Inr None\<close> is the early return when there is no view.\<close>

definition handleNavigation :: "EditorView option \<Rightarrow> Position \<Rightarrow> error + EditorView option" where
  "handleNavigation viewRef ev =
     (case viewRef of
        None \<Rightarrow> Inr None
      | Some view \<Rightarrow>
          (let d = doc view;
               targetLine = min (doc_lines d) (line ev + 1)
           in case doc_line d targetLine of
                Inl e \<Rightarrow> Inl e
              | Inr l \<Rightarrow>
                  (let lineStart = line_from l;
                       lineLength = line_length l;
                       pos = lineStart + min (character ev) lineLength
                   in case dispatch_selection view pos of
                        Inl e \<Rightarrow> Inl e
                      | Inr view' \<Rightarrow> Inr (Some view'))))"

subsection \<open>\<open>handleChange\<close> (lines 337-354)\<close>

record UpdateCall =
  upd_filePath :: string
  upd_content :: string
  upd_version :: int

text \<open>The component state \<open>documentVersion\<close> (\<open>useState(1)\<close>, line 219), with the calls
  of \<open>updateDocument\<close> and of \<open>onChange\<close> in the order they are made.\<close>

record ChangeState =
  documentVersion :: int
  updateDocument_calls :: "UpdateCall list"
  onChange_calls :: "string list"

definition initialChangeState :: ChangeState where
  "initialChangeState = \<lparr>documentVersion = 1, updateDocument_calls = [], onChange_calls = []\<rparr>"

definition handleChange :: "string \<Rightarrow> ChangeState \<Rightarrow> string \<Rightarrow> ChangeState" where
  "handleChange filePath s content =
     (let newVersion = documentVersion s + 1
      in s\<lparr>documentVersion := newVersion,
           updateDocument_calls :=
             updateDocument_calls s @
               [\<lparr>upd_filePath = filePath, upd_content = content, upd_version = newVersion\<rparr>],
           onChange_calls := onChange_calls s @ [content]\<rparr>)"

text \<open>Content changes one after the other.\<close>

fun handleChanges :: "string \<Rightarrow> ChangeState \<Rightarrow> string list \<Rightarrow> ChangeState" where
  "handleChanges filePath s [] = s"
| "handleChanges filePath s (content # rest) = handleChanges filePath (handleChange filePath s content) rest"

definition sent_versions :: "ChangeState \<Rightarrow> int list" where
  "sent_versions s = map upd_version (updateDocument_calls s)"

subsection \<open>\<open>createLspHover\<close> (lines 378-413)\<close>

record 'd HoverState =
  hover_data :: 'd
  hover_top :: real
  hover_left :: real
  isVisible :: bool

definition showHover :: "'d \<Rightarrow> real \<Rightarrow> real \<Rightarrow> 'd HoverState" where
  "showHover data top' left' = \<lparr>hover_data = data, hover_top = top', hover_left = left', isVisible = True\<rparr>"

text \<open>
  The hover source. \<open>filePath\<close> is the component's prop, \<open>getHoverInfo\<close> the server's
  answer to the request. The result is the hover state that the scheduled call of
  \<open>showHoverFn\<close> sets, \<open>None\<close> when the display callback is not invoked.
\<close>

definition lspHover ::
  "string option \<Rightarrow> LspStore \<Rightarrow> (string \<Rightarrow> Position \<Rightarrow> 'd HoverInfo option) \<Rightarrow> EditorView \<Rightarrow> int
     \<Rightarrow> error + 'd HoverState option" where
  "lspHover filePath st getHoverInfo view pos =
     (if falsy filePath \<or> filePath \<noteq> currentFilePath st then Inr None
      else (case filePath of
              None \<Rightarrow> Inr None
            | Some fp \<Rightarrow>
                (case doc_lineAt (doc view) pos of
                   Inl e \<Rightarrow> Inl e
                 | Inr l \<Rightarrow>
                     (let lspPosition = \<lparr>line = line_number l - 1, character = pos - line_from l\<rparr>
                      in case getHoverInfo fp lspPosition of
                           None \<Rightarrow> Inr None
                         | Some hoverInfo \<Rightarrow>
                             (case enhancedContents hoverInfo of
                                None \<Rightarrow> Inr None
                              | Some contents \<Rightarrow>
                                  (case coordsAtPos view pos of
                                     None \<Rightarrow> Inr None
                                   | Some posCoords \<Rightarrow>
                                       Inr (Some (showHover contents (rect_top posCoords + 20)
                                                    (rect_left posCoords)))))))))"

subsection \<open>\<open>getLanguageExtension\<close> (lines 502-527)\<close>

text \<open>The language supports; \<open>Javascript jsx typescript\<close> is \<open>javascript({jsx, typescript})\<close>,
  whose options default to false.\<close>

datatype Extension =
    Html | Css | Javascript bool bool | Json | Python | Java | Rust | Cpp | Php | Xml
  | Markdown | Sql | Sass | Less | Yaml

definition getLanguageExtension :: "string \<Rightarrow> Extension" where
  "getLanguageExtension lang =
     (if lang = ''html'' then Html
      else if lang = ''css'' then Css
      else if lang = ''javascript'' then Javascript False False
      else if lang = ''typescript'' then Javascript False True
      else if lang = ''jsx'' then Javascript True False
      else if lang = ''tsx'' then Javascript True True
      else if lang = ''json'' then Json
      else if lang = ''python'' then Python
      else if lang = ''java'' then Java
      else if lang = ''rust'' then Rust
      else if lang = ''cpp'' then Cpp
      else if lang = ''c++'' then Cpp
      else if lang = ''c'' then Cpp
      else if lang = ''php'' then Php
      else if lang = ''xml'' then Xml
      else if lang = ''markdown'' then Markdown
      else if lang = ''md'' then Markdown
      else if lang = ''sql'' then Sql
      else if lang = ''sass'' then Sass
      else if lang = ''less'' then Less
      else if lang = ''yaml'' then Yaml
      else Javascript False True)"

subsection \<open>The editor a \<open>CodeEditor\<close> builds (lines 437-452)\<close>

text \<open>The extensions \<open>lspCompletion\<close> and \<open>lspLinter\<close> are module-level values installed
  as they are: the component's \<open>filePath\<close> prop, the file the surface displays, does not
  reach them. The hover source closes over the prop.\<close>

record CodeEditorProps =
  initialValue :: string
  language :: string
  readOnly :: bool
  filePath :: "string option"

definition editor_linter :: "CodeEditorProps \<Rightarrow> EditorView \<Rightarrow> LspStore \<Rightarrow> CMDiagnostic list" where
  "editor_linter props = lspLinter"

definition editor_completion :: "CodeEditorProps \<Rightarrow> LspStore \<Rightarrow> CompletionContext \<Rightarrow> error + CompletionRequest option" where
  "editor_completion props = lspCompletion"

definition editor_hover ::
  "CodeEditorProps \<Rightarrow> LspStore \<Rightarrow> (string \<Rightarrow> Position \<Rightarrow> 'd HoverInfo option) \<Rightarrow> EditorView \<Rightarrow> int
     \<Rightarrow> error + 'd HoverState option" where
  "editor_hover props = lspHover (filePath props)"

subsection \<open>Notions of the specification used in the statements\<close>

text \<open>Clamping a value to \<open>[lo, hi]\<close>, as the specification words the navigation
  handler.\<close>

definition clamp :: "int \<Rightarrow> int \<Rightarrow> int \<Rightarrow> int" where
  "clamp lo hi x = max lo (min hi x)"

text \<open>Following the specification's words for the completion range: the start of the
  longest contiguous run of characters of the class that ends at \<open>p\<close> within the line
  of \<open>p\<close>.\<close>

definition longest_run_start :: "(char \<Rightarrow> bool) \<Rightarrow> Text \<Rightarrow> int \<Rightarrow> error + int" where
  "longest_run_start cls d p =
     (case doc_lineAt d p of
        Inl e \<Rightarrow> Inl e
      | Inr l \<Rightarrow>
          Inr (p - int (length (takeWhile cls (rev (take (nat (p - line_from l)) (line_text l)))))))"

section \<open>Properties\<close>

subsection \<open>Lines and offsets of a document\<close>

text \<open>Every valid offset lies on a line, and every line number in \<open>[1, lines]\<close> names a
  line; the line's span lies inside the document.\<close>

lemma textLength_ge: "- 1 \<le> textLength ls"
  by (induction ls) auto

lemma textLength_single: "textLength [s] = int (length s)"
  by simp

lemma lineInner_pos:
  "ls \<noteq> [] \<Longrightarrow> target \<le> off + textLength ls \<Longrightarrow>
   \<exists>l. lineInner ls target False n off = Some l \<and> off \<le> line_from l
      \<and> line_to l \<le> off + textLength ls
      \<and> line_to l = line_from l + int (length (line_text l))
      \<and> target \<le> line_to l"
proof (induction ls arbitrary: n off)
  case Nil
  then show ?case by simp
next
  case (Cons s ss)
  show ?case
  proof (cases "target \<le> off + int (length s)")
    case True
    have "- 1 \<le> textLength ss" by (rule textLength_ge)
    with True show ?thesis by (simp add: Let_def)
  next
    case False
    with Cons.prems have ne: "ss \<noteq> []" by (cases ss) auto
    from Cons.prems have "target \<le> (off + int (length s) + 1) + textLength ss" by simp
    from Cons.IH [OF ne this, of "n + 1"] obtain l where
      l: "lineInner ss target False (n + 1) (off + int (length s) + 1) = Some l"
         "off + int (length s) + 1 \<le> line_from l"
         "line_to l \<le> off + int (length s) + 1 + textLength ss"
         "line_to l = line_from l + int (length (line_text l))"
         "target \<le> line_to l"
      by blast
    with False show ?thesis by (simp add: Let_def)
  qed
qed

lemma lineInner_line:
  "n \<le> target \<Longrightarrow> target < n + int (length ls) \<Longrightarrow>
   \<exists>l. lineInner ls target True n off = Some l \<and> off \<le> line_from l
      \<and> line_to l \<le> off + textLength ls
      \<and> line_to l = line_from l + int (length (line_text l))
      \<and> line_number l = target"
proof (induction ls arbitrary: n off)
  case Nil
  then show ?case by simp
next
  case (Cons s ss)
  show ?case
  proof (cases "target \<le> n")
    case True
    have "- 1 \<le> textLength ss" by (rule textLength_ge)
    with True Cons.prems show ?thesis by (simp add: Let_def)
  next
    case False
    with Cons.prems have a: "n + 1 \<le> target" and b: "target < (n + 1) + int (length ss)" by auto
    from Cons.IH [OF a b, of "off + int (length s) + 1"] obtain l where
      l: "lineInner ss target True (n + 1) (off + int (length s) + 1) = Some l"
         "off + int (length s) + 1 \<le> line_from l"
         "line_to l \<le> off + int (length s) + 1 + textLength ss"
         "line_to l = line_from l + int (length (line_text l))"
         "line_number l = target"
      by blast
    with False show ?thesis by (simp add: Let_def)
  qed
qed

lemma text_lines_nonempty: "text_lines d \<noteq> []"
  by (cases d) simp

lemma doc_lineAt_valid:
  assumes "valid_offset d pos"
  shows "\<exists>l. doc_lineAt d pos = Inr l \<and> 0 \<le> line_from l \<and> line_to l \<le> doc_length d
           \<and> line_to l = line_from l + int (length (line_text l)) \<and> pos \<le> line_to l"
proof -
  from assms have "pos \<le> 0 + textLength (text_lines d)" and r: "\<not> (pos < 0 \<or> pos > doc_length d)"
    by (auto simp: valid_offset_def doc_length_def)
  from lineInner_pos [OF text_lines_nonempty this(1), of 1] obtain l where
    "lineInner (text_lines d) pos False 1 0 = Some l" "0 \<le> line_from l"
    "line_to l \<le> 0 + textLength (text_lines d)"
    "line_to l = line_from l + int (length (line_text l))" "pos \<le> line_to l"
    by blast
  with r show ?thesis by (simp add: doc_lineAt_def doc_length_def)
qed

lemma doc_line_valid:
  assumes "1 \<le> n" "n \<le> doc_lines d"
  shows "\<exists>l. doc_line d n = Inr l \<and> 0 \<le> line_from l \<and> line_to l \<le> doc_length d
           \<and> line_to l = line_from l + int (length (line_text l)) \<and> line_number l = n"
proof -
  from assms have a: "1 \<le> n" and b: "n < 1 + int (length (text_lines d))"
    and r: "\<not> (n < 1 \<or> n > doc_lines d)"
    by (auto simp: doc_lines_def)
  from lineInner_line [OF a b, of 0] obtain l where
    "lineInner (text_lines d) n True 1 0 = Some l" "0 \<le> line_from l"
    "line_to l \<le> 0 + textLength (text_lines d)"
    "line_to l = line_from l + int (length (line_text l))" "line_number l = n"
    by blast
  with r show ?thesis by (simp add: doc_line_def doc_length_def)
qed

subsection \<open>Language fallback\<close>

text \<open>
  Claim C9. For every language string that is none of the cases the \<open>switch\<close> handles
  (html, css, javascript, typescript, jsx, tsx, json, python, java, rust, cpp, c++, c,
  php, xml, markdown, md, sql, sass, less, yaml), \<open>getLanguageExtension\<close> returns the
  TypeScript-enabled JavaScript extension.
\<close>

theorem getLanguageExtension_fallback:
  "lang \<notin> set [''html'', ''css'', ''javascript'', ''typescript'', ''jsx'', ''tsx'', ''json'',
                 ''python'', ''java'', ''rust'', ''cpp'', ''c++'', ''c'', ''php'', ''xml'',
                 ''markdown'', ''md'', ''sql'', ''sass'', ''less'', ''yaml'']
   \<Longrightarrow> getLanguageExtension lang = Javascript False True"
  by (simp add: getLanguageExtension_def)

text \<open>The fallback at the language \<open>go\<close>.\<close>

theorem getLanguageExtension_fallback_witness:
  "''go'' \<notin> set [''html'', ''css'', ''javascript'', ''typescript'', ''jsx'', ''tsx'', ''json'',
                 ''python'', ''java'', ''rust'', ''cpp'', ''c++'', ''c'', ''php'', ''xml'',
                 ''markdown'', ''md'', ''sql'', ''sass'', ''less'', ''yaml'']
   \<and> getLanguageExtension ''go'' = Javascript False True"
  using getLanguageExtension_fallback [of "''go''"] by simp

subsection \<open>Project root fallback\<close>

lemma lastIndexFrom_absent: "c \<notin> set xs \<Longrightarrow> lastIndexFrom c xs i found = found"
  by (induction xs arbitrary: i found) auto

lemma lastIndexFrom_last:
  "c \<notin> set suf \<Longrightarrow> lastIndexFrom c (pre @ c # suf) i found = i + int (length pre)"
  by (induction pre arbitrary: i found) (auto simp: lastIndexFrom_absent)

text \<open>
  Claim C10. When the resolution of the project root fails, the fallback root is the
  prefix of \<open>filePath\<close> up to, and excluding, its last \<open>/\<close>; for a path with no \<open>/\<close> it
  is the empty string.
\<close>

theorem getProjectRoot_fallback:
  "(CHR ''/'' \<notin> set path \<longrightarrow> getProjectRoot (Inl err) path = [])
   \<and> (\<forall>pre suf. path = pre @ CHR ''/'' # suf \<and> CHR ''/'' \<notin> set suf
         \<longrightarrow> getProjectRoot (Inl err) path = pre)"
proof (intro conjI allI impI)
  assume "CHR ''/'' \<notin> set path"
  then have "lastIndexOf path CHR ''/'' = - 1"
    by (simp add: lastIndexOf_def lastIndexFrom_absent)
  then show "getProjectRoot (Inl err) path = []"
    by (simp add: getProjectRoot_def substring_def)
next
  fix pre suf
  assume "path = pre @ CHR ''/'' # suf \<and> CHR ''/'' \<notin> set suf"
  then have f: "path = pre @ CHR ''/'' # suf" and "CHR ''/'' \<notin> set suf" by auto
  then have "lastIndexOf path CHR ''/'' = int (length pre)"
    by (simp add: lastIndexOf_def lastIndexFrom_last)
  then show "getProjectRoot (Inl err) path = pre"
    using f by (simp add: getProjectRoot_def substring_def Let_def)
qed

text \<open>The fallback for a bare file name and for an absolute path.\<close>

theorem getProjectRoot_fallback_witness:
  "getProjectRoot (Inl ()) ''main.ts'' = [] \<and> getProjectRoot (Inl ()) ''/home/u/app/src/main.ts'' = ''/home/u/app/src''"
  using getProjectRoot_fallback [of "''main.ts''" "()"]
    getProjectRoot_fallback [of "''/home/u/app/src/main.ts''" "()", THEN conjunct2, rule_format, of "''/home/u/app/src''" "''main.ts''"]
  by simp

subsection \<open>Revisions sent on content changes\<close>

lemma handleChanges_versions:
  "sent_versions (handleChanges f s cs)
     = sent_versions s @ map (\<lambda>i. documentVersion s + 1 + int i) [0..<length cs]
   \<and> map upd_filePath (updateDocument_calls (handleChanges f s cs))
     = map upd_filePath (updateDocument_calls s) @ replicate (length cs) f
   \<and> map upd_content (updateDocument_calls (handleChanges f s cs))
     = map upd_content (updateDocument_calls s) @ cs"
proof (induction cs arbitrary: s)
  case Nil
  then show ?case by simp
next
  case (Cons c cs)
  have v: "documentVersion (handleChange f s c) = documentVersion s + 1"
    by (simp add: handleChange_def Let_def)
  have m: "map (\<lambda>i. documentVersion s + 1 + int i) [0..<Suc (length cs)]
        = (documentVersion s + 1) # map (\<lambda>i. documentVersion s + 1 + 1 + int i) [0..<length cs]"
    by (simp add: map_upt_Suc del: upt_Suc) 
  show ?case
    using Cons.IH [of "handleChange f s c"] 
    by (simp add: v m del: upt_Suc) (simp add: handleChange_def Let_def sent_versions_def replicate_app_Cons_same)
qed

lemma sorted_wrt_succ: "sorted_wrt (<) (map (\<lambda>i. (k::int) + int i) [0..<n])"
  by (simp add: sorted_wrt_map sorted_wrt_iff_nth_less)

text \<open>
  Claim C5. Starting from the initial component state (\<open>documentVersion = 1\<close>), \<open>N\<close>
  content changes one after the other send to the server, for the file \<open>f\<close>, exactly the
  revisions \<open>2, 3, ..., N + 1\<close>: a strictly increasing sequence of length \<open>N\<close> with no
  repeat and no gap.
\<close>

theorem update_revisions_consecutive:
  "sent_versions (handleChanges f initialChangeState contents)
     = map (\<lambda>i. 2 + int i) [0..<length contents]
   \<and> length (sent_versions (handleChanges f initialChangeState contents)) = length contents
   \<and> sorted_wrt (<) (sent_versions (handleChanges f initialChangeState contents))
   \<and> distinct (sent_versions (handleChanges f initialChangeState contents))
   \<and> map upd_filePath (updateDocument_calls (handleChanges f initialChangeState contents))
     = replicate (length contents) f"
proof -
  have e: "sent_versions (handleChanges f initialChangeState contents)
     = map (\<lambda>i. 2 + int i) [0..<length contents]"
    using handleChanges_versions [of f initialChangeState contents]
    by (simp add: initialChangeState_def sent_versions_def)
  have s: "sorted_wrt (<) (map (\<lambda>i. (2::int) + int i) [0..<length contents])"
    by (rule sorted_wrt_succ)
  have d: "distinct (map (\<lambda>i. (2::int) + int i) [0..<length contents])"
    by (simp add: distinct_map inj_on_def)
  have p: "map upd_filePath (updateDocument_calls (handleChanges f initialChangeState contents))
     = replicate (length contents) f"
    using handleChanges_versions [of f initialChangeState contents]
    by (simp add: initialChangeState_def)
  show ?thesis using e s d p by simp
qed

text \<open>Three changes send the revisions 2, 3 and 4.\<close>

theorem update_revisions_consecutive_witness:
  "sent_versions (handleChanges ''a.ts'' initialChangeState [''x'', ''xy'', ''xyz'']) = [2, 3, 4]"
  using update_revisions_consecutive [of "''a.ts''" "[''x'', ''xy'', ''xyz'']"]
  by (simp add: upt_rec)

subsection \<open>Diagnostics\<close>

text \<open>The projector maps the severity to three tiers, and takes the two \<open>character\<close>
  fields of the range as the editor range.\<close>

lemma mapLspDiagnosticsToCM_severity:
  "map cm_severity (mapLspDiagnosticsToCM ds)
     = map (\<lambda>d. if severity d = ''error'' then ''error''
                 else if severity d = ''warning'' then ''warning'' else ''info'') ds"
  by (simp add: mapLspDiagnosticsToCM_def)

lemma mapLspDiagnosticsToCM_range:
  "map (\<lambda>c. (cm_from c, cm_to c)) (mapLspDiagnosticsToCM ds)
     = map (\<lambda>d. (character (range_start (diag_range d)), character (range_end (diag_range d)))) ds"
  by (simp add: mapLspDiagnosticsToCM_def)

text \<open>
  Claim C2 (the projected range of a diagnostic is the translation of its server-form
  start and end against the document). On the document \<open>ab\<close>, \<open>cd\<close> a diagnostic on
  the second line, from \<open>{line 1, character 0}\<close> to \<open>{line 1, character 2}\<close>, is projected
  to the editor range \<open>[0, 2)\<close>: the \<open>line\<close> fields are not read. The same two
  positions, translated by \<open>handleNavigation\<close> against the same document, are the
  offsets 3 and 5.
\<close>

theorem mapLspDiagnosticsToCM_second_line:
  "mapLspDiagnosticsToCM
     [\<lparr>diag_range = \<lparr>range_start = \<lparr>line = 1, character = 0\<rparr>,
                     range_end = \<lparr>line = 1, character = 2\<rparr>\<rparr>,
       severity = ''error'', message = ''unknown name''\<rparr>]
   = [\<lparr>cm_from = 0, cm_to = 2, cm_severity = ''error'', cm_message = ''unknown name''\<rparr>]
   \<and> handleNavigation (Some \<lparr>doc = Text_of ''ab'' [''cd''], selection_head = 0, coordsAtPos = (\<lambda>p. None)\<rparr>)
        \<lparr>line = 1, character = 0\<rparr>
     = Inr (Some \<lparr>doc = Text_of ''ab'' [''cd''], selection_head = 3, coordsAtPos = (\<lambda>p. None)\<rparr>)
   \<and> handleNavigation (Some \<lparr>doc = Text_of ''ab'' [''cd''], selection_head = 0, coordsAtPos = (\<lambda>p. None)\<rparr>)
        \<lparr>line = 1, character = 2\<rparr>
     = Inr (Some \<lparr>doc = Text_of ''ab'' [''cd''], selection_head = 5, coordsAtPos = (\<lambda>p. None)\<rparr>)"
  by (simp add: mapLspDiagnosticsToCM_def handleNavigation_def doc_lines_def doc_line_def
      line_length_def dispatch_selection_def doc_length_def Let_def)

text \<open>
  Claim C3 (the linter returns the empty list when asked about a file that is not the
  store's current one). An editor mounted for \<open>a.ts\<close>, while the store's
  \<open>currentFilePath\<close> is \<open>b.ts\<close> and holds one diagnostic, gets that diagnostic from the
  linter. The hover source of the same editor, which compares the component's own
  \<open>filePath\<close> with the store's, issues no request in that state.
\<close>

theorem lspLinter_other_file_input:
  "editor_linter \<lparr>initialValue = ''ab'', language = ''typescript'', readOnly = False, filePath = Some ''a.ts''\<rparr>
     \<lparr>doc = Text_of ''ab'' [], selection_head = 0, coordsAtPos = (\<lambda>p. None)\<rparr>
     \<lparr>currentFilePath = Some ''b.ts'',
      diagnostics = [\<lparr>diag_range = \<lparr>range_start = \<lparr>line = 0, character = 0\<rparr>,
                                    range_end = \<lparr>line = 0, character = 1\<rparr>\<rparr>,
                      severity = ''error'', message = ''unknown name''\<rparr>]\<rparr>
   = [\<lparr>cm_from = 0, cm_to = 1, cm_severity = ''error'', cm_message = ''unknown name''\<rparr>]
   \<and> editor_hover \<lparr>initialValue = ''ab'', language = ''typescript'', readOnly = False, filePath = Some ''a.ts''\<rparr>
     \<lparr>currentFilePath = Some ''b.ts'',
      diagnostics = [\<lparr>diag_range = \<lparr>range_start = \<lparr>line = 0, character = 0\<rparr>,
                                    range_end = \<lparr>line = 0, character = 1\<rparr>\<rparr>,
                      severity = ''error'', message = ''unknown name''\<rparr>]\<rparr>
     (\<lambda>fp p. Some \<lparr>enhancedContents = Some ''doc''\<rparr>)
     \<lparr>doc = Text_of ''ab'' [], selection_head = 0, coordsAtPos = (\<lambda>p. None)\<rparr> 0
   = Inr None"
  by (simp add: editor_linter_def lspLinter_def mapLspDiagnosticsToCM_def editor_hover_def lspHover_def)

subsection \<open>The completion provider\<close>

text \<open>With a cursor on a line, the starred class always matches (possibly the empty
  string at the cursor), so \<open>matchBefore\<close> is never \<open>null\<close> and the \<open>then\<close> callback
  always produces a result with one option per item of the response, in the
  response's order.\<close>

lemma search_class_star_nonneg: "0 \<le> search_class_star cls str"
proof -
  have "length (takeWhile cls (rev str)) \<le> length (rev str)" by (rule length_takeWhile_le)
  then show ?thesis by (simp add: search_class_star_def)
qed

lemma matchBefore_valid:
  assumes "doc_lineAt (ctx_doc ctx) (ctx_pos ctx) = Inr l"
  shows "\<exists>m. matchBefore ctx cls = Inr (Some m) \<and> match_to m = ctx_pos ctx"
  using assms search_class_star_nonneg [of cls]
  by (simp add: matchBefore_def Let_def not_less [symmetric])

lemma lspCompletion_then_valid:
  assumes "doc_lineAt (ctx_doc ctx) (ctx_pos ctx) = Inr l"
  shows "\<exists>res. lspCompletion_then ctx k items = Inr res
           \<and> result_options res
               = map (\<lambda>item. \<lparr>cmpl_label = label item, cmpl_type = toLowerCase (kind item),
                                cmpl_detail = detail item, cmpl_info = documentation item,
                                cmpl_apply = label item\<rparr>) items"
proof -
  from matchBefore_valid [OF assms, of wordClass] obtain m where
    "matchBefore ctx wordClass = Inr (Some m)" by blast
  then show ?thesis by (simp add: lspCompletion_then_def)
qed

lemma lspCompletion_request:
  assumes "doc_lineAt (ctx_doc ctx) (ctx_pos ctx) = Inr l"
  shows "lspCompletion st ctx =
           (if falsy (currentFilePath st) then Inr None
            else Inr (Some \<lparr>req_filePath = the (currentFilePath st),
                            req_position = \<lparr>line = line_number l - 1, character = ctx_pos ctx - line_from l\<rparr>,
                            req_context = ctx, req_lineStart = line_from l\<rparr>))"
  using assms by (cases "currentFilePath st") (simp_all add: lspCompletion_def Let_def)

subsection \<open>The file guard of the completion provider and of the linter\<close>

lemma linter_empty_iff:
  "(editor_linter props view st = []) = (falsy (currentFilePath st) \<or> diagnostics st = [])"
  by (simp add: editor_linter_def lspLinter_def Let_def mapLspDiagnosticsToCM_def)

text \<open>
  Claim C8, as stated, fails for the linter: with the non-empty \<open>currentFilePath\<close>
  \<open>a.ts\<close> and no stored diagnostic the linter returns the empty list, so an empty
  list is not returned only when \<open>currentFilePath\<close> is null or empty.
\<close>

theorem guard_reads_store_only_counterexample:
  "editor_linter \<lparr>initialValue = ''ab'', language = ''typescript'', readOnly = False, filePath = Some ''a.ts''\<rparr>
     \<lparr>doc = Text_of ''ab'' [], selection_head = 0, coordsAtPos = (\<lambda>p. None)\<rparr>
     \<lparr>currentFilePath = Some ''a.ts'', diagnostics = []\<rparr> = []
   \<and> \<not> falsy (currentFilePath \<lparr>currentFilePath = Some ''a.ts'', diagnostics = []\<rparr>)"
  by (simp add: editor_linter_def lspLinter_def mapLspDiagnosticsToCM_def)

text \<open>
  Claim C8, amended. The guard of both providers compares the store's
  \<open>currentFilePath\<close> with itself and fails only when it is null or empty, whatever file
  the editing surface displays (the props of the editor and its view do not matter).
  The linter returns the empty list when \<open>currentFilePath\<close> is null or empty and
  otherwise the projection of the stored diagnostics, one per stored diagnostic: its
  result is empty exactly when \<open>currentFilePath\<close> is null or empty or no diagnostic
  is stored. The completion provider, at a valid cursor, returns \<open>null\<close> exactly when
  \<open>currentFilePath\<close> is null or empty.
\<close>

theorem guard_reads_store_only:
  "editor_linter props view st
     = (if falsy (currentFilePath st) then [] else mapLspDiagnosticsToCM (diagnostics st))
   \<and> length (mapLspDiagnosticsToCM (diagnostics st)) = length (diagnostics st)
   \<and> (editor_linter props view st = []) = (falsy (currentFilePath st) \<or> diagnostics st = [])
   \<and> (valid_offset (ctx_doc ctx) (ctx_pos ctx)
        \<longrightarrow> (editor_completion props st ctx = Inr None) = falsy (currentFilePath st))"
proof (intro conjI impI)
  show "(editor_linter props view st = []) = (falsy (currentFilePath st) \<or> diagnostics st = [])"
    by (rule linter_empty_iff)
  show "editor_linter props view st
     = (if falsy (currentFilePath st) then [] else mapLspDiagnosticsToCM (diagnostics st))"
    by (simp add: editor_linter_def lspLinter_def Let_def)
  show "length (mapLspDiagnosticsToCM (diagnostics st)) = length (diagnostics st)"
    by (simp add: mapLspDiagnosticsToCM_def)
next
  assume "valid_offset (ctx_doc ctx) (ctx_pos ctx)"
  from doc_lineAt_valid [OF this] obtain l where "doc_lineAt (ctx_doc ctx) (ctx_pos ctx) = Inr l"
    by blast
  from lspCompletion_request [OF this, of st]
  show "(editor_completion props st ctx = Inr None) = falsy (currentFilePath st)"
    by (simp add: editor_completion_def)
qed

text \<open>An editor mounted for \<open>a.ts\<close> with the store at \<open>b.ts\<close>: the linter proceeds and
  the completion provider issues a request; with an empty \<open>currentFilePath\<close> the
  completion provider returns \<open>null\<close>.\<close>

theorem guard_reads_store_only_witness:
  "editor_linter \<lparr>initialValue = ''ab'', language = ''typescript'', readOnly = False, filePath = Some ''a.ts''\<rparr>
     \<lparr>doc = Text_of ''ab'' [], selection_head = 0, coordsAtPos = (\<lambda>p. None)\<rparr>
     \<lparr>currentFilePath = Some ''b.ts'',
      diagnostics = [\<lparr>diag_range = \<lparr>range_start = \<lparr>line = 0, character = 0\<rparr>,
                                    range_end = \<lparr>line = 0, character = 1\<rparr>\<rparr>,
                      severity = ''hint'', message = ''unused''\<rparr>]\<rparr>
     = [\<lparr>cm_from = 0, cm_to = 1, cm_severity = ''info'', cm_message = ''unused''\<rparr>]
   \<and> valid_offset (Text_of ''ab'' []) 1
   \<and> editor_completion \<lparr>initialValue = ''ab'', language = ''typescript'', readOnly = False, filePath = Some ''a.ts''\<rparr>
        \<lparr>currentFilePath = Some '''', diagnostics = []\<rparr> \<lparr>ctx_doc = Text_of ''ab'' [], ctx_pos = 1\<rparr> = Inr None
   \<and> editor_completion \<lparr>initialValue = ''ab'', language = ''typescript'', readOnly = False, filePath = Some ''a.ts''\<rparr>
        \<lparr>currentFilePath = Some ''b.ts'', diagnostics = []\<rparr> \<lparr>ctx_doc = Text_of ''ab'' [], ctx_pos = 1\<rparr> \<noteq> Inr None"
proof -
  have v: "valid_offset (Text_of ''ab'' []) 1"
    by (simp add: valid_offset_def doc_length_def)
  show ?thesis
    using v
      guard_reads_store_only [of "\<lparr>initialValue = ''ab'', language = ''typescript'', readOnly = False, filePath = Some ''a.ts''\<rparr>"
        "\<lparr>doc = Text_of ''ab'' [], selection_head = 0, coordsAtPos = (\<lambda>p. None)\<rparr>"
        "\<lparr>currentFilePath = Some ''b.ts'',
      diagnostics = [\<lparr>diag_range = \<lparr>range_start = \<lparr>line = 0, character = 0\<rparr>,
                                    range_end = \<lparr>line = 0, character = 1\<rparr>\<rparr>,
                      severity = ''hint'', message = ''unused''\<rparr>]\<rparr>"
        "\<lparr>ctx_doc = Text_of ''ab'' [], ctx_pos = 1\<rparr>"]
      guard_reads_store_only [of "\<lparr>initialValue = ''ab'', language = ''typescript'', readOnly = False, filePath = Some ''a.ts''\<rparr>"
        "\<lparr>doc = Text_of ''ab'' [], selection_head = 0, coordsAtPos = (\<lambda>p. None)\<rparr>"
        "\<lparr>currentFilePath = Some '''', diagnostics = []\<rparr>"
        "\<lparr>ctx_doc = Text_of ''ab'' [], ctx_pos = 1\<rparr>"]
      guard_reads_store_only [of "\<lparr>initialValue = ''ab'', language = ''typescript'', readOnly = False, filePath = Some ''a.ts''\<rparr>"
        "\<lparr>doc = Text_of ''ab'' [], selection_head = 0, coordsAtPos = (\<lambda>p. None)\<rparr>"
        "\<lparr>currentFilePath = Some ''b.ts'', diagnostics = []\<rparr>"
        "\<lparr>ctx_doc = Text_of ''ab'' [], ctx_pos = 1\<rparr>"]
    by (simp add: mapLspDiagnosticsToCM_def)
qed

subsection \<open>Hover\<close>

lemma lspHover_active:
  assumes "fp \<noteq> []" "currentFilePath st = Some fp" "doc_lineAt (doc view) pos = Inr l"
  shows "lspHover (Some fp) st getHoverInfo view pos =
           (case getHoverInfo fp \<lparr>line = line_number l - 1, character = pos - line_from l\<rparr> of
              None \<Rightarrow> Inr None
            | Some hoverInfo \<Rightarrow>
                (case enhancedContents hoverInfo of
                   None \<Rightarrow> Inr None
                 | Some contents \<Rightarrow>
                     (case coordsAtPos view pos of
                        None \<Rightarrow> Inr None
                      | Some posCoords \<Rightarrow>
                          Inr (Some (showHover contents (rect_top posCoords + 20) (rect_left posCoords))))))"
  using assms by (simp add: lspHover_def Let_def)

text \<open>
  Claim C7, as stated, fails: a hover request whose file is active and whose response
  has content shows nothing when \<open>coordsAtPos\<close> gives no coordinates for the offset.
\<close>

theorem hover_display_counterexample:
  "editor_hover \<lparr>initialValue = ''foo'', language = ''typescript'', readOnly = False, filePath = Some ''a.ts''\<rparr>
     \<lparr>currentFilePath = Some ''a.ts'', diagnostics = []\<rparr>
     (\<lambda>fp p. Some \<lparr>enhancedContents = Some ''function foo(): void''\<rparr>)
     \<lparr>doc = Text_of ''foo'' [], selection_head = 0, coordsAtPos = (\<lambda>p. None)\<rparr> 1
   = Inr None"
  by (simp add: editor_hover_def lspHover_def doc_lineAt_def doc_length_def)

text \<open>
  Claim C7, amended. For a hover request at a valid offset \<open>pos\<close> issued while the
  component's file is the store's current one: nothing is shown when there is no
  response, when the response has no \<open>enhancedContents\<close>, or when the offset has no
  screen coordinates; otherwise the display callback is invoked with the contents,
  anchored at the left coordinate of the offset and at its top coordinate plus 20.
\<close>

theorem hover_display:
  assumes "filePath props = Some fp" "fp \<noteq> []" "currentFilePath st = Some fp"
    and "valid_offset (doc view) pos"
  shows "\<exists>l. doc_lineAt (doc view) pos = Inr l
     \<and> (getHoverInfo fp \<lparr>line = line_number l - 1, character = pos - line_from l\<rparr> = None
          \<longrightarrow> editor_hover props st getHoverInfo view pos = Inr None)
     \<and> (\<forall>h. getHoverInfo fp \<lparr>line = line_number l - 1, character = pos - line_from l\<rparr> = Some h
              \<and> enhancedContents h = None
          \<longrightarrow> editor_hover props st getHoverInfo view pos = Inr None)
     \<and> (\<forall>h c. getHoverInfo fp \<lparr>line = line_number l - 1, character = pos - line_from l\<rparr> = Some h
              \<and> enhancedContents h = Some c \<and> coordsAtPos view pos = None
          \<longrightarrow> editor_hover props st getHoverInfo view pos = Inr None)
     \<and> (\<forall>h c r. getHoverInfo fp \<lparr>line = line_number l - 1, character = pos - line_from l\<rparr> = Some h
              \<and> enhancedContents h = Some c \<and> coordsAtPos view pos = Some r
          \<longrightarrow> editor_hover props st getHoverInfo view pos
                = Inr (Some \<lparr>hover_data = c, hover_top = rect_top r + 20, hover_left = rect_left r,
                              isVisible = True\<rparr>))"
proof -
  from doc_lineAt_valid [OF assms(4)] obtain l where l: "doc_lineAt (doc view) pos = Inr l"
    by blast
  note h = lspHover_active [OF assms(2) assms(3) l, of getHoverInfo]
  show ?thesis
    using l h assms(1) by (auto simp: editor_hover_def showHover_def)
qed

text \<open>A response with contents at coordinates \<open>(top 100, left 40)\<close> is shown at
  \<open>(top 120, left 40)\<close>; a response without contents shows nothing.\<close>

theorem hover_display_witness:
  "editor_hover \<lparr>initialValue = ''foo'', language = ''typescript'', readOnly = False, filePath = Some ''a.ts''\<rparr>
     \<lparr>currentFilePath = Some ''a.ts'', diagnostics = []\<rparr>
     (\<lambda>fp p. if p = \<lparr>line = 0, character = 1\<rparr> then Some \<lparr>enhancedContents = Some ''function foo(): void''\<rparr> else None)
     \<lparr>doc = Text_of ''foo'' [], selection_head = 0,
      coordsAtPos = (\<lambda>p. Some \<lparr>rect_left = 40, rect_right = 48, rect_top = 100, rect_bottom = 116\<rparr>)\<rparr> 1
   = Inr (Some \<lparr>hover_data = ''function foo(): void'', hover_top = 120, hover_left = 40, isVisible = True\<rparr>)
   \<and> editor_hover \<lparr>initialValue = ''foo'', language = ''typescript'', readOnly = False, filePath = Some ''a.ts''\<rparr>
     \<lparr>currentFilePath = Some ''a.ts'', diagnostics = []\<rparr>
     (\<lambda>fp p. Some \<lparr>enhancedContents = (None :: string option)\<rparr>)
     \<lparr>doc = Text_of ''foo'' [], selection_head = 0,
      coordsAtPos = (\<lambda>p. Some \<lparr>rect_left = 40, rect_right = 48, rect_top = 100, rect_bottom = 116\<rparr>)\<rparr> 1
   = Inr None"
proof -
  have v: "valid_offset (Text_of ''foo'' []) 1"
    by (simp add: valid_offset_def doc_length_def)
  have l: "doc_lineAt (Text_of ''foo'' []) 1
             = Inr \<lparr>line_from = 0, line_to = 3, line_number = 1, line_text = ''foo''\<rparr>"
    by (simp add: doc_lineAt_def doc_length_def)
  show ?thesis
    using
      hover_display [of "\<lparr>initialValue = ''foo'', language = ''typescript'', readOnly = False, filePath = Some ''a.ts''\<rparr>"
        "''a.ts''" "\<lparr>currentFilePath = Some ''a.ts'', diagnostics = []\<rparr>"
        "\<lparr>doc = Text_of ''foo'' [], selection_head = 0,
      coordsAtPos = (\<lambda>p. Some \<lparr>rect_left = 40, rect_right = 48, rect_top = 100, rect_bottom = 116\<rparr>)\<rparr>" 1
        "(\<lambda>fp p. if p = \<lparr>line = 0, character = 1\<rparr> then Some \<lparr>enhancedContents = Some ''function foo(): void''\<rparr> else None)"]
      hover_display [of "\<lparr>initialValue = ''foo'', language = ''typescript'', readOnly = False, filePath = Some ''a.ts''\<rparr>"
        "''a.ts''" "\<lparr>currentFilePath = Some ''a.ts'', diagnostics = []\<rparr>"
        "\<lparr>doc = Text_of ''foo'' [], selection_head = 0,
      coordsAtPos = (\<lambda>p. Some \<lparr>rect_left = 40, rect_right = 48, rect_top = 100, rect_bottom = 116\<rparr>)\<rparr>" 1
        "(\<lambda>fp p. Some \<lparr>enhancedContents = (None :: string option)\<rparr>)"]
    by (simp add: v l)
qed

subsection \<open>Responses that arrive after a file switch\<close>

text \<open>
  Claim C1, as stated, fails: a completion request is issued while \<open>currentFilePath\<close> is
  \<open>a.ts\<close>, the store switches to \<open>b.ts\<close>, and the response that arrives afterwards is
  delivered to the editing surface all the same.
\<close>

theorem completion_stale_response_counterexample:
  "run \<lparr>store = \<lparr>currentFilePath = Some ''a.ts'', diagnostics = []\<rparr>, pending = None, delivered = None\<rparr>
     [Trigger \<lparr>ctx_doc = Text_of ''fo'' [], ctx_pos = 2\<rparr>,
      SetCurrentFilePath (Some ''b.ts''),
      Response [\<lparr>label = ''foo'', kind = ''Function'', detail = None, documentation = None\<rparr>]]
   = Inr \<lparr>store = \<lparr>currentFilePath = Some ''b.ts'', diagnostics = []\<rparr>,
          pending = None,
          delivered = Some \<lparr>result_from = 0,
                            result_options = [\<lparr>cmpl_label = ''foo'', cmpl_type = ''function'',
                                               cmpl_detail = None, cmpl_info = None,
                                               cmpl_apply = ''foo''\<rparr>]\<rparr>\<rparr>"
proof -
  have lower: "toLowerCase ''Function'' = ''function''"
    by code_simp
  show ?thesis
    by (simp add: lspCompletion_def lspCompletion_then_def matchBefore_def doc_lineAt_def
        doc_length_def slice_def search_class_star_def wordClass_def lower Let_def)
qed

text \<open>
  Claim C1, amended. The completion provider looks at the store only when it is
  triggered: with a null or empty \<open>currentFilePath\<close> it returns \<open>null\<close> and nothing is
  delivered; otherwise the request is issued for \<open>currentFilePath\<close>, and when the
  response arrives its items are delivered to the editing surface, whatever value
  \<open>q\<close> the store's \<open>currentFilePath\<close> has by then.
\<close>

theorem completion_guard_at_trigger_only:
  assumes "valid_offset (ctx_doc ctx) (ctx_pos ctx)"
  shows "(falsy (currentFilePath st)
          \<longrightarrow> run \<lparr>store = st, pending = None, delivered = None\<rparr>
                 [Trigger ctx, SetCurrentFilePath q, Response items]
              = Inr \<lparr>store = st\<lparr>currentFilePath := q\<rparr>, pending = None, delivered = None\<rparr>)
     \<and> (\<not> falsy (currentFilePath st)
          \<longrightarrow> (\<exists>req res. lspCompletion st ctx = Inr (Some req)
                 \<and> Some (req_filePath req) = currentFilePath st
                 \<and> lspCompletion_then ctx (req_lineStart req) items = Inr res
                 \<and> result_options res
                     = map (\<lambda>item. \<lparr>cmpl_label = label item, cmpl_type = toLowerCase (kind item),
                                      cmpl_detail = detail item, cmpl_info = documentation item,
                                      cmpl_apply = label item\<rparr>) items
                 \<and> run \<lparr>store = st, pending = None, delivered = None\<rparr>
                     [Trigger ctx, SetCurrentFilePath q, Response items]
                   = Inr \<lparr>store = st\<lparr>currentFilePath := q\<rparr>, pending = None, delivered = Some res\<rparr>))"
proof -
  from doc_lineAt_valid [OF assms] obtain l where l: "doc_lineAt (ctx_doc ctx) (ctx_pos ctx) = Inr l"
    by blast
  note r = lspCompletion_request [OF l, of st]
  from lspCompletion_then_valid [OF l, of "line_from l" items] obtain res where
    res: "lspCompletion_then ctx (line_from l) items = Inr res"
      "result_options res
         = map (\<lambda>item. \<lparr>cmpl_label = label item, cmpl_type = toLowerCase (kind item),
                          cmpl_detail = detail item, cmpl_info = documentation item,
                          cmpl_apply = label item\<rparr>) items"
    by blast
  show ?thesis
  proof (cases "falsy (currentFilePath st)")
    case True
    with r show ?thesis by simp
  next
    case False
    then obtain fp where fp: "currentFilePath st = Some fp" by (cases "currentFilePath st") auto
    with False r res show ?thesis by simp
  qed
qed

text \<open>Both branches at a concrete trigger, with a switch to \<open>b.ts\<close> before the response.\<close>

theorem completion_guard_at_trigger_only_witness:
  "valid_offset (Text_of ''fo'' []) 2
   \<and> run \<lparr>store = \<lparr>currentFilePath = None, diagnostics = []\<rparr>, pending = None, delivered = None\<rparr>
       [Trigger \<lparr>ctx_doc = Text_of ''fo'' [], ctx_pos = 2\<rparr>, SetCurrentFilePath (Some ''b.ts''),
        Response [\<lparr>label = ''foo'', kind = ''Function'', detail = None, documentation = None\<rparr>]]
     = Inr \<lparr>store = \<lparr>currentFilePath = Some ''b.ts'', diagnostics = []\<rparr>, pending = None, delivered = None\<rparr>
   \<and> (\<exists>res. run \<lparr>store = \<lparr>currentFilePath = Some ''a.ts'', diagnostics = []\<rparr>, pending = None, delivered = None\<rparr>
       [Trigger \<lparr>ctx_doc = Text_of ''fo'' [], ctx_pos = 2\<rparr>, SetCurrentFilePath (Some ''b.ts''),
        Response [\<lparr>label = ''foo'', kind = ''Function'', detail = None, documentation = None\<rparr>]]
     = Inr \<lparr>store = \<lparr>currentFilePath = Some ''b.ts'', diagnostics = []\<rparr>, pending = None, delivered = Some res\<rparr>
     \<and> map cmpl_label (result_options res) = [''foo''])"
proof -
  have v: "valid_offset (Text_of ''fo'' []) 2"
    by (simp add: valid_offset_def doc_length_def)
  have v': "valid_offset (ctx_doc \<lparr>ctx_doc = Text_of ''fo'' [], ctx_pos = 2\<rparr>) (ctx_pos \<lparr>ctx_doc = Text_of ''fo'' [], ctx_pos = 2\<rparr>)"
    using v by simp
  note a = completion_guard_at_trigger_only [OF v', of "\<lparr>currentFilePath = None, diagnostics = []\<rparr>" "Some ''b.ts''"
        "[\<lparr>label = ''foo'', kind = ''Function'', detail = None, documentation = None\<rparr>]", THEN conjunct1]
  note b = completion_guard_at_trigger_only [OF v', of "\<lparr>currentFilePath = Some ''a.ts'', diagnostics = []\<rparr>" "Some ''b.ts''"
        "[\<lparr>label = ''foo'', kind = ''Function'', detail = None, documentation = None\<rparr>]", THEN conjunct2]
  have nf: "\<not> falsy (currentFilePath \<lparr>currentFilePath = Some ''a.ts'', diagnostics = []\<rparr>)" by simp
  from b [rule_format, OF nf] obtain req res where
    "result_options res = map (\<lambda>item. \<lparr>cmpl_label = label item, cmpl_type = toLowerCase (kind item),
                                      cmpl_detail = detail item, cmpl_info = documentation item,
                                      cmpl_apply = label item\<rparr>) [\<lparr>label = ''foo'', kind = ''Function'', detail = None, documentation = None\<rparr>]"
    "run \<lparr>store = \<lparr>currentFilePath = Some ''a.ts'', diagnostics = []\<rparr>, pending = None, delivered = None\<rparr>
       [Trigger \<lparr>ctx_doc = Text_of ''fo'' [], ctx_pos = 2\<rparr>, SetCurrentFilePath (Some ''b.ts''),
        Response [\<lparr>label = ''foo'', kind = ''Function'', detail = None, documentation = None\<rparr>]]
     = Inr \<lparr>store = \<lparr>currentFilePath = Some ''a.ts'', diagnostics = []\<rparr>\<lparr>currentFilePath := Some ''b.ts''\<rparr>, pending = None, delivered = Some res\<rparr>"
    by blast
  then have "\<exists>res. run \<lparr>store = \<lparr>currentFilePath = Some ''a.ts'', diagnostics = []\<rparr>, pending = None, delivered = None\<rparr>
       [Trigger \<lparr>ctx_doc = Text_of ''fo'' [], ctx_pos = 2\<rparr>, SetCurrentFilePath (Some ''b.ts''),
        Response [\<lparr>label = ''foo'', kind = ''Function'', detail = None, documentation = None\<rparr>]]
     = Inr \<lparr>store = \<lparr>currentFilePath = Some ''b.ts'', diagnostics = []\<rparr>, pending = None, delivered = Some res\<rparr>
     \<and> map cmpl_label (result_options res) = [''foo'']"
    by simp
  with v a show ?thesis by simp
qed

subsection \<open>Navigation\<close>

text \<open>
  Claim C4, as stated, fails: the event \<open>{line: -1, character: 0}\<close> asks the document for
  line 0, which throws a RangeError.
\<close>

theorem handleNavigation_counterexample:
  "handleNavigation (Some \<lparr>doc = Text_of ''ab'' [''cd'', ''ef''], selection_head = 0, coordsAtPos = (\<lambda>p. None)\<rparr>)
     \<lparr>line = - 1, character = 0\<rparr> = Inl RangeError"
  by (simp add: handleNavigation_def doc_lines_def doc_line_def Let_def)

text \<open>A negative \<open>character\<close> is not clamped to 0 either: on the second line it puts the
  caret at the end of the first line.\<close>

lemma handleNavigation_negative_character:
  "handleNavigation (Some \<lparr>doc = Text_of ''ab'' [''cd'', ''ef''], selection_head = 0, coordsAtPos = (\<lambda>p. None)\<rparr>)
     \<lparr>line = 1, character = - 1\<rparr>
   = Inr (Some \<lparr>doc = Text_of ''ab'' [''cd'', ''ef''], selection_head = 2, coordsAtPos = (\<lambda>p. None)\<rparr>)"
  by (simp add: handleNavigation_def doc_lines_def doc_line_def Let_def line_length_def
      dispatch_selection_def doc_length_def)

text \<open>
  Claim C4, amended. For every navigation event with \<open>line \<ge> 0\<close> and
  \<open>character \<ge> 0\<close> on any document shown in a mounted view, the handler clamps the line
  to \<open>[0, lastLine]\<close> and the character to \<open>[0, lineLength]\<close>, moves the caret to the
  offset of that position, which is a valid offset of the document, and does not throw;
  without a mounted view it returns without effect.
\<close>

theorem handleNavigation_clamps:
  assumes "0 \<le> line ev" "0 \<le> character ev"
  shows "handleNavigation None ev = Inr None
     \<and> (\<exists>l. doc_line (doc view) (clamp 0 (doc_lines (doc view) - 1) (line ev) + 1) = Inr l
           \<and> handleNavigation (Some view) ev
               = Inr (Some (view\<lparr>selection_head := line_from l + clamp 0 (line_length l) (character ev)\<rparr>))
           \<and> valid_offset (doc view) (line_from l + clamp 0 (line_length l) (character ev)))"
proof -
  let ?n = "min (doc_lines (doc view)) (line ev + 1)"
  have pos: "1 \<le> doc_lines (doc view)"
    using text_lines_nonempty [of "doc view"] by (cases "text_lines (doc view)") (auto simp: doc_lines_def)
  have n: "clamp 0 (doc_lines (doc view) - 1) (line ev) + 1 = ?n"
    using assms(1) pos by (simp add: clamp_def)
  have "1 \<le> ?n" "?n \<le> doc_lines (doc view)" using assms(1) pos by auto
  from doc_line_valid [OF this] obtain l where
    l: "doc_line (doc view) ?n = Inr l" "0 \<le> line_from l" "line_to l \<le> doc_length (doc view)"
       "line_to l = line_from l + int (length (line_text l))"
    by blast
  have len: "0 \<le> line_length l" using l(4) by (simp add: line_length_def)
  have c: "clamp 0 (line_length l) (character ev) = min (character ev) (line_length l)"
    using assms(2) len by (simp add: clamp_def)
  have v: "valid_offset (doc view) (line_from l + min (character ev) (line_length l))"
    using l(2,3) len assms(2) by (auto simp: valid_offset_def line_length_def)
  then have d: "dispatch_selection view (line_from l + min (character ev) (line_length l))
             = Inr (view\<lparr>selection_head := line_from l + min (character ev) (line_length l)\<rparr>)"
    by (simp add: dispatch_selection_def valid_offset_def)
  have h: "handleNavigation (Some view) ev
        = Inr (Some (view\<lparr>selection_head := line_from l + min (character ev) (line_length l)\<rparr>))"
    using l(1) d by (simp add: handleNavigation_def Let_def)
  have "handleNavigation None ev = Inr None" by (simp add: handleNavigation_def)
  with l(1) h v n c show ?thesis by simp
qed

text \<open>The event \<open>{line: 1000, character: 5}\<close> on a three-line document puts the caret at
  the end of the last line.\<close>

theorem handleNavigation_clamps_witness:
  "handleNavigation (Some \<lparr>doc = Text_of ''ab'' [''cd'', ''efg''], selection_head = 0, coordsAtPos = (\<lambda>p. None)\<rparr>)
     \<lparr>line = 1000, character = 5\<rparr>
   = Inr (Some \<lparr>doc = Text_of ''ab'' [''cd'', ''efg''], selection_head = 9, coordsAtPos = (\<lambda>p. None)\<rparr>)
   \<and> valid_offset (Text_of ''ab'' [''cd'', ''efg'']) 9"
proof -
  have a: "0 \<le> line \<lparr>line = 1000, character = 5\<rparr>" and b: "0 \<le> character \<lparr>line = 1000, character = 5\<rparr>"
    by simp_all
  have l: "doc_line (Text_of ''ab'' [''cd'', ''efg'']) 3
             = Inr \<lparr>line_from = 6, line_to = 9, line_number = 3, line_text = ''efg''\<rparr>"
    by (simp add: doc_line_def doc_lines_def Let_def)
  show ?thesis
    using handleNavigation_clamps [OF a b,
        of "\<lparr>doc = Text_of ''ab'' [''cd'', ''efg''], selection_head = 0, coordsAtPos = (\<lambda>p. None)\<rparr>"]
    by (simp add: clamp_def doc_lines_def l line_length_def)
qed

subsection \<open>The replacement range of a completion\<close>

lemma doc_lineAt_first_line:
  assumes "p \<le> length l0"
  shows "doc_lineAt (Text_of l0 rest) (int p)
           = Inr \<lparr>line_from = 0, line_to = int (length l0), line_number = 1, line_text = l0\<rparr>"
proof -
  have "- 1 \<le> textLength rest" by (rule textLength_ge)
  with assms show ?thesis by (simp add: doc_lineAt_def doc_length_def Let_def)
qed

lemma length_takeWhile_take:
  "length (takeWhile P (take w xs)) = min w (length (takeWhile P xs))"
proof (induction xs arbitrary: w)
  case Nil
  then show ?case by simp
next
  case (Cons x xs)
  then show ?case by (cases w) auto
qed

lemma rev_window:
  assumes "p \<le> length xs" "w \<le> p"
  shows "rev (take w (drop (p - w) xs)) = take w (rev (take p xs))"
proof -
  have "take p xs = take ((p - w) + w) xs" using assms by simp
  also have "\<dots> = take (p - w) xs @ take w (drop (p - w) xs)" by (rule take_add)
  finally have "rev (take p xs) = rev (take w (drop (p - w) xs)) @ rev (take (p - w) xs)" by simp
  moreover have "length (rev (take w (drop (p - w) xs))) = w" using assms by simp
  ultimately show ?thesis by simp
qed

lemma slice_window:
  assumes "p \<le> length xs"
  shows "slice xs (max 0 (int p - 250)) (int p) = take (min 250 p) (drop (p - min 250 p) xs)"
proof (cases "p \<le> 250")
  case True
  with assms show ?thesis by (simp add: slice_def Let_def min_def)
next
  case False
  then have "nat (int p - 250) = p - 250" by simp
  with False assms show ?thesis
    by (simp add: slice_def Let_def min_def max_def nat_diff_distrib')
qed

lemma matchBefore_first_line:
  assumes "p \<le> length l0"
  shows "\<exists>m. matchBefore \<lparr>ctx_doc = Text_of l0 rest, ctx_pos = int p\<rparr> cls = Inr (Some m)
           \<and> match_from m = int p - int (min 250 (length (takeWhile cls (rev (take p l0)))))"
proof -
  let ?w = "min 250 p"
  let ?r = "length (takeWhile cls (rev (take p l0)))"
  let ?str = "take ?w (drop (p - ?w) l0)"
  have rp: "?r \<le> p"
    using length_takeWhile_le [of cls "rev (take p l0)"] assms by simp
  have len: "length ?str = ?w" using assms by simp
  have "rev ?str = take ?w (rev (take p l0))" using assms by (intro rev_window) simp_all
  then have tw: "length (takeWhile cls (rev ?str)) = min ?w ?r"
    by (simp only: length_takeWhile_take)
  have m: "min ?w ?r = min 250 ?r" using rp by simp
  have found: "search_class_star cls ?str = int ?w - int (min 250 ?r)"
    unfolding search_class_star_def len tw m ..
  have start: "max 0 (int p - 250) = int p - int ?w" by (simp add: min_def)
  have nonneg: "\<not> int ?w - int (min 250 ?r) < 0" using rp by (simp add: min_def)
  have sl: "slice l0 (max 0 (int p - 250)) (int p) = ?str"
    using slice_window [OF assms] by simp
  have found_a: "search_class_star cls (slice l0 (max 0 (int p - 250)) (int p))
                   = int ?w - int (min 250 ?r)"
    by (simp only: sl found)
  have found_b: "search_class_star cls (slice l0 (int p - int ?w) (int p))
                   = int ?w - int (min 250 ?r)"
    using found_a by (simp only: start)
  have la: "doc_lineAt (Text_of l0 rest) (int p)
              = Inr \<lparr>line_from = 0, line_to = int (length l0), line_number = 1, line_text = l0\<rparr>"
    by (rule doc_lineAt_first_line [OF assms])
  show ?thesis
    using nonneg
    by (simp add: matchBefore_def la Let_def found_a found_b start)
qed

lemma longest_run_start_first_line:
  assumes "p \<le> length l0"
  shows "longest_run_start cls (Text_of l0 rest) (int p)
           = Inr (int p - int (length (takeWhile cls (rev (take p l0)))))"
  by (simp add: longest_run_start_def doc_lineAt_first_line [OF assms])

text \<open>
  Claim C6, as stated, fails: on a line of 300 word characters with the cursor at its
  end, the longest run ending at the cursor starts at offset 0, and the range the
  provider returns starts at offset 50, since \<open>matchBefore\<close> reads no more than 250
  characters before the cursor.
\<close>

theorem completion_range_counterexample:
  "run \<lparr>store = \<lparr>currentFilePath = Some ''a.ts'', diagnostics = []\<rparr>, pending = None, delivered = None\<rparr>
          [Trigger \<lparr>ctx_doc = Text_of (replicate 300 CHR ''a'') [], ctx_pos = 300\<rparr>, Response []]
        = Inr \<lparr>store = \<lparr>currentFilePath = Some ''a.ts'', diagnostics = []\<rparr>, pending = None,
               delivered = Some \<lparr>result_from = 50, result_options = []\<rparr>\<rparr>
   \<and> longest_run_start wordClass (Text_of (replicate 300 CHR ''a'') []) 300 = Inr 0"
proof -
  have w: "wordClass CHR ''a''" by (simp add: wordClass_def)
  have la: "doc_lineAt (Text_of (replicate 300 CHR ''a'') []) 300
      = Inr \<lparr>line_from = 0, line_to = 300, line_number = 1, line_text = replicate 300 CHR ''a''\<rparr>"
    by (simp add: doc_lineAt_def doc_length_def)
  have sl: "slice (replicate 300 CHR ''a'') 50 300 = replicate 250 CHR ''a''"
    by (simp add: slice_def)
  have se: "search_class_star wordClass (replicate 250 CHR ''a'') = 0"
    using w by (simp add: search_class_star_def takeWhile_replicate)
  have mb: "matchBefore \<lparr>ctx_doc = Text_of (replicate 300 CHR ''a'') [], ctx_pos = 300\<rparr> wordClass
      = Inr (Some \<lparr>match_from = 50, match_to = 300, match_text = replicate 250 CHR ''a''\<rparr>)"
    by (simp add: matchBefore_def la sl se slice_def)
  have a: "run \<lparr>store = \<lparr>currentFilePath = Some ''a.ts'', diagnostics = []\<rparr>, pending = None, delivered = None\<rparr>
          [Trigger \<lparr>ctx_doc = Text_of (replicate 300 CHR ''a'') [], ctx_pos = 300\<rparr>, Response []]
        = Inr \<lparr>store = \<lparr>currentFilePath = Some ''a.ts'', diagnostics = []\<rparr>, pending = None,
               delivered = Some \<lparr>result_from = 50, result_options = []\<rparr>\<rparr>"
    by (simp add: lspCompletion_def la lspCompletion_then_def mb)
  have b: "longest_run_start wordClass (Text_of (replicate 300 CHR ''a'') []) 300 = Inr 0"
    using w by (simp add: longest_run_start_def la takeWhile_replicate)
  from a b show ?thesis by simp
qed

text \<open>
  Claim C6, amended. For every completion trigger at an offset \<open>p\<close> on the first line of
  the document, with a non-empty \<open>currentFilePath\<close>, the replacement range starts at the
  start of the longest run of class characters ending at \<open>p\<close>, but no more than 250
  characters before \<open>p\<close>, and it lies in \<open>[0, p]\<close>. (The result carries no \<open>to\<close>; the
  library ends the range at the cursor.)
\<close>

theorem completion_range_first_line:
  assumes "p \<le> length l0" "\<not> falsy (currentFilePath st)"
  shows "\<exists>s res. longest_run_start wordClass (Text_of l0 rest) (int p) = Inr s
     \<and> run \<lparr>store = st, pending = None, delivered = None\<rparr>
          [Trigger \<lparr>ctx_doc = Text_of l0 rest, ctx_pos = int p\<rparr>, Response items]
        = Inr \<lparr>store = st, pending = None, delivered = Some res\<rparr>
     \<and> result_from res = max (int p - 250) s
     \<and> 0 \<le> result_from res \<and> result_from res \<le> int p"
proof -
  let ?ctx = "\<lparr>ctx_doc = Text_of l0 rest, ctx_pos = int p\<rparr>"
  let ?r = "length (takeWhile wordClass (rev (take p l0)))"
  have rp: "?r \<le> p"
    using length_takeWhile_le [of wordClass "rev (take p l0)"] assms(1) by simp
  have la: "doc_lineAt (ctx_doc ?ctx) (ctx_pos ?ctx)
              = Inr \<lparr>line_from = 0, line_to = int (length l0), line_number = 1, line_text = l0\<rparr>"
    using doc_lineAt_first_line [OF assms(1)] by simp
  from assms(2) obtain fp where fp: "currentFilePath st = Some fp"
    by (cases "currentFilePath st") auto
  have req: "lspCompletion st ?ctx
        = Inr (Some \<lparr>req_filePath = fp,
                      req_position = \<lparr>line = 0, character = int p\<rparr>,
                      req_context = ?ctx, req_lineStart = 0\<rparr>)"
    using lspCompletion_request [OF la, of st] assms(2) fp by simp
  from matchBefore_first_line [OF assms(1), of rest wordClass] obtain m where
    m: "matchBefore ?ctx wordClass = Inr (Some m)"
       "match_from m = int p - int (min 250 ?r)"
    by blast
  let ?res = "\<lparr>result_from = 0 + match_from m,
               result_options = map (\<lambda>item. \<lparr>cmpl_label = label item, cmpl_type = toLowerCase (kind item),
                                      cmpl_detail = detail item, cmpl_info = documentation item,
                                      cmpl_apply = label item\<rparr>) items\<rparr>"
  have th: "lspCompletion_then ?ctx 0 items = Inr ?res"
    using m(1) by (simp add: lspCompletion_then_def)
  have r1: "run \<lparr>store = st, pending = None, delivered = None\<rparr> [Trigger ?ctx, Response items]
        = Inr \<lparr>store = st, pending = None, delivered = Some ?res\<rparr>"
    using req th by simp
  have r2: "result_from ?res = max (int p - 250) (int p - int ?r)"
    using m(2) by (simp add: min_def max_def)
  have r3: "0 \<le> result_from ?res" "result_from ?res \<le> int p"
    using m(2) rp by (simp_all add: min_def)
  from longest_run_start_first_line [OF assms(1), of wordClass rest] r1 r2 r3
  show ?thesis by blast
qed

text \<open>The document \<open>let x = foo.\<close> with the cursor at offset 12: the range starts at 8.\<close>

theorem completion_range_first_line_witness:
  "\<exists>res. run \<lparr>store = \<lparr>currentFilePath = Some ''a.ts'', diagnostics = []\<rparr>, pending = None, delivered = None\<rparr>
          [Trigger \<lparr>ctx_doc = Text_of ''let x = foo.'' [], ctx_pos = 12\<rparr>, Response []]
        = Inr \<lparr>store = \<lparr>currentFilePath = Some ''a.ts'', diagnostics = []\<rparr>, pending = None,
               delivered = Some res\<rparr>
     \<and> result_from res = 8"
proof -
  have a: "12 \<le> length ''let x = foo.''" by simp
  have b: "\<not> falsy (currentFilePath \<lparr>currentFilePath = Some ''a.ts'', diagnostics = []\<rparr>)" by simp
  have s: "longest_run_start wordClass (Text_of ''let x = foo.'' []) 12 = Inr 8"
    by (simp add: longest_run_start_def doc_lineAt_def doc_length_def wordClass_def)
  from completion_range_first_line [OF a b, of "[]" "[]"] s
  show ?thesis by auto
qed

text \<open>The same example evaluated in full.\<close>

lemma completion_example:
  "run \<lparr>store = \<lparr>currentFilePath = Some ''a.ts'', diagnostics = []\<rparr>, pending = None, delivered = None\<rparr>
          [Trigger \<lparr>ctx_doc = Text_of ''let x = foo.'' [], ctx_pos = 12\<rparr>, Response []]
        = Inr \<lparr>store = \<lparr>currentFilePath = Some ''a.ts'', diagnostics = []\<rparr>, pending = None,
               delivered = Some \<lparr>result_from = 8, result_options = []\<rparr>\<rparr>"
  by (simp add: lspCompletion_def lspCompletion_then_def matchBefore_def doc_lineAt_def
        doc_length_def slice_def search_class_star_def wordClass_def Let_def)

text \<open>
  On a later line the provider adds \<open>lineStart\<close> to \<open>match.from\<close>, which is a document
  position already: on the document \<open>ab\<close>, \<open>cd\<close> with the cursor at offset 5 the range
  starts at 6, beyond the cursor, where the run \<open>cd\<close> starts at 3.
\<close>

lemma completion_second_line:
  "run \<lparr>store = \<lparr>currentFilePath = Some ''a.ts'', diagnostics = []\<rparr>, pending = None, delivered = None\<rparr>
          [Trigger \<lparr>ctx_doc = Text_of ''ab'' [''cd''], ctx_pos = 5\<rparr>, Response []]
        = Inr \<lparr>store = \<lparr>currentFilePath = Some ''a.ts'', diagnostics = []\<rparr>, pending = None,
               delivered = Some \<lparr>result_from = 6, result_options = []\<rparr>\<rparr>
   \<and> longest_run_start wordClass (Text_of ''ab'' [''cd'']) 5 = Inr 3"
  by (simp add: lspCompletion_def lspCompletion_then_def matchBefore_def doc_lineAt_def
        doc_length_def slice_def search_class_star_def wordClass_def Let_def longest_run_start_def)

end
